theory Spec2Isabelle
  imports Main "HOL-Library.Word"
begin

section \<open>Strings and character classes\<close>

text \<open>
  A JavaScript string is a sequence of UTF-16 code units. \<open>body.charAt(i)\<close>,
  \<open>toptext.slice(1)\<close> and a regular expression without the \<open>u\<close> flag all work on
  code units, so a string is a list of 16-bit words.
\<close>

type_synonym cu = "16 word"
type_synonym jstring = "cu list"

text \<open>\<open>const kanaRegex = /[\u3040-\u3096\u30a1-\u30fa\uff66-\uff9f\u30fc]/\<close>,
  tested on a one-unit string.\<close>

definition kanaRegex :: "cu \<Rightarrow> bool" where
  "kanaRegex c \<longleftrightarrow>
     (0x3040 \<le> c \<and> c \<le> 0x3096) \<or> (0x30A1 \<le> c \<and> c \<le> 0x30FA) \<or>
     (0xFF66 \<le> c \<and> c \<le> 0xFF9F) \<or> c = 0x30FC"

text \<open>\<open>const kanjiRegex = /[\u3400-\u9faf]/\<close>.\<close>

definition kanjiRegex :: "cu \<Rightarrow> bool" where
  "kanjiRegex c \<longleftrightarrow> 0x3400 \<le> c \<and> c \<le> 0x9FAF"

text \<open>The value of the variable \<open>lastType\<close>: \<open>"kanji"\<close>, \<open>"kana"\<close> or \<open>"other"\<close>.\<close>

datatype ctype = Kanji | Kana | Other

section \<open>The regular expressions built by \<open>bodyToRegex\<close>\<close>

text \<open>
  \<open>bodyToRegex\<close> concatenates a fixed repertoire of regular-expression fragments.
  A pattern is the list of its fragments, each constructor standing for one piece of
  regex source text:
  \<^item> \<open>Bos\<close> is \<open>^\<close> and \<open>Eos\<close> is \<open>$\<close> (no \<open>m\<close> flag: start and end of input);
  \<^item> \<open>Lit c\<close> is the kana character \<open>c\<close> itself (no kana is a regex metacharacter);
  \<^item> \<open>combinatorOrSeparatorGroup\<close> is \<open>([+.]?)\<close>;
  \<^item> \<open>combinatorOrSeparator\<close> is \<open>[+.]?\<close>;
  \<^item> \<open>combinatorOnly\<close> is \<open>\.?\<close>;
  \<^item> \<open>furiganaGroup\<close> is \<open>([^+.]+)\<close>.
  Every fragment starts with \<open>(\<close>, \<open>[\<close>, \<open>\\<close>, an anchor or a kana, so the
  concatenated source text parses back into exactly these fragments.
\<close>

datatype relem =
    Bos | Eos | Lit cu
  | combinatorOrSeparatorGroup | combinatorOrSeparator | combinatorOnly | furiganaGroup

text \<open>The character class \<open>[+.]\<close>.\<close>

definition plusDot :: "cu \<Rightarrow> bool" where
  "plusDot c \<longleftrightarrow> c = 0x2B \<or> c = 0x2E"

text \<open>
  Greedy repetition with backtracking: try the longest admissible length first, then
  shorter ones, down to one character.
\<close>

fun try_lengths :: "(nat \<Rightarrow> 'a option) \<Rightarrow> nat \<Rightarrow> 'a option" where
  "try_lengths f 0 = None"
| "try_lengths f (Suc n) = (case f (Suc n) of Some r \<Rightarrow> Some r | None \<Rightarrow> try_lengths f n)"

text \<open>
  The backtracking matcher of ECMAScript, specialised to the fragments above.
  \<open>rmatch es pos s\<close> matches the fragments \<open>es\<close> against the rest \<open>s\<close> of the input,
  \<open>pos\<close> code units after its start, and returns the captured groups of the first
  successful alternative in priority order (a greedy \<open>?\<close> tries one character before
  none, a greedy \<open>+\<close> the longest run first). A group that matched the empty string
  captures \<open>""\<close>.
\<close>

fun rmatch :: "relem list \<Rightarrow> nat \<Rightarrow> jstring \<Rightarrow> jstring list option" where
  "rmatch [] pos s = Some []"
| "rmatch (Bos # es) pos s = (if pos = 0 then rmatch es pos s else None)"
| "rmatch (Eos # es) pos s = (if s = [] then rmatch es pos s else None)"
| "rmatch (Lit c # es) pos s =
     (case s of [] \<Rightarrow> None
      | x # xs \<Rightarrow> if x = c then rmatch es (Suc pos) xs else None)"
| "rmatch (combinatorOrSeparatorGroup # es) pos s =
     (case (case s of [] \<Rightarrow> None
            | x # xs \<Rightarrow> if plusDot x then map_option ((#) [x]) (rmatch es (Suc pos) xs) else None) of
        Some m \<Rightarrow> Some m
      | None \<Rightarrow> map_option ((#) []) (rmatch es pos s))"
| "rmatch (combinatorOrSeparator # es) pos s =
     (case (case s of [] \<Rightarrow> None
            | x # xs \<Rightarrow> if plusDot x then rmatch es (Suc pos) xs else None) of
        Some m \<Rightarrow> Some m
      | None \<Rightarrow> rmatch es pos s)"
| "rmatch (combinatorOnly # es) pos s =
     (case (case s of [] \<Rightarrow> None
            | x # xs \<Rightarrow> if x = 0x2E then rmatch es (Suc pos) xs else None) of
        Some m \<Rightarrow> Some m
      | None \<Rightarrow> rmatch es pos s)"
| "rmatch (furiganaGroup # es) pos s =
     try_lengths (\<lambda>k. map_option ((#) (take k s)) (rmatch es (pos + k) (drop k s)))
       (length (takeWhile (\<lambda>c. \<not> plusDot c) s))"

text \<open>
  \<open>RegExp.prototype.exec\<close> of a regex without the \<open>g\<close> flag: the match is tried at
  offset 0, then at each later offset, up to the end of the input. The result is the
  list of captured groups \<open>match[1], match[2], ...\<close>; \<open>match[0]\<close>, the whole matched
  text, is never read by the program and is left out.
\<close>

fun exec_from :: "relem list \<Rightarrow> nat \<Rightarrow> jstring \<Rightarrow> jstring list option" where
  "exec_from re pos [] = rmatch re pos []"
| "exec_from re pos (x # xs) =
     (case rmatch re pos (x # xs) of Some m \<Rightarrow> Some m | None \<Rightarrow> exec_from re (Suc pos) xs)"

definition exec :: "relem list \<Rightarrow> jstring \<Rightarrow> jstring list option" where
  "exec re s = exec_from re 0 s"

text \<open>
  \<open>match[i]\<close> for \<open>i \<ge> 1\<close>. Reading past the last group gives \<open>undefined\<close> in
  JavaScript; that is \<open>None\<close> here.
\<close>

definition matchGet :: "jstring list \<Rightarrow> nat \<Rightarrow> jstring option" where
  "matchGet m i = (if 1 \<le> i \<and> i \<le> length m then Some (m ! (i - 1)) else None)"

section \<open>\<open>bodyToRegex\<close>\<close>

text \<open>The \<open>for\<close> loop of \<open>bodyToRegex\<close>, with the variables \<open>regexStr\<close> and \<open>lastType\<close>.\<close>

fun bodyToRegex_loop :: "jstring \<Rightarrow> relem list \<Rightarrow> ctype \<Rightarrow> relem list" where
  "bodyToRegex_loop [] regexStr lastType = regexStr"
| "bodyToRegex_loop (c # cs) regexStr lastType =
     (if kanjiRegex c then
        bodyToRegex_loop cs
          ((if lastType = Kanji then regexStr @ [combinatorOrSeparatorGroup]
            else if lastType = Kana then regexStr @ [combinatorOrSeparator]
            else regexStr) @ [furiganaGroup])
          Kanji
      else if kanaRegex c then
        bodyToRegex_loop cs
          ((if lastType = Kanji then regexStr @ [combinatorOrSeparator] else regexStr) @ [Lit c])
          Kana
      else
        bodyToRegex_loop cs
          (if lastType \<noteq> Other then regexStr @ [combinatorOnly] else regexStr)
          Other)"

text \<open>
  \<open>regexStr\<close> starts as \<open>"^"\<close>; the function returns \<open>null\<close> when \<open>regexStr === ""\<close>
  after the loop, and \<open>new RegExp(regexStr + "$")\<close> otherwise.
\<close>

definition bodyToRegex :: "jstring \<Rightarrow> relem list option" where
  "bodyToRegex body =
     (let regexStr = bodyToRegex_loop body [Bos] Other
      in if regexStr = [] then None else Some (regexStr @ [Eos]))"

section \<open>\<open>FuriganaOptions\<close> and \<open>cleanFurigana\<close>\<close>

text \<open>
  The two regular expressions of the options are global character classes; a class is
  its membership test.
\<close>

record FuriganaOptions =
  fallbackParens :: jstring
  extraSeparators :: jstring
  extraCombinators :: jstring
  separatorRegex :: "cu \<Rightarrow> bool"
  combinatorRegex :: "cu \<Rightarrow> bool"

text \<open>\<open>s.replace(/([\-\]\\])/g, "\\$1")\<close>: a backslash before each \<open>-\<close>, \<open>]\<close> and \<open>\\<close>.\<close>

definition escapeExtra :: "jstring \<Rightarrow> jstring" where
  "escapeExtra s = concat (map (\<lambda>c. if c = 0x2D \<or> c = 0x5D \<or> c = 0x5C then [0x5C, c] else [c]) s)"

text \<open>
  The members a string escaped by \<open>escapeExtra\<close> adds to a character class when it is
  spliced in before the closing bracket: a backslash makes the next unit literal.
\<close>

fun classExtra :: "jstring \<Rightarrow> cu \<Rightarrow> bool" where
  "classExtra [] c = False"
| "classExtra [x] c = (x = c)"
| "classExtra (x # y # ys) c =
     (if x = 0x5C then y = c \<or> classExtra ys c else x = c \<or> classExtra (y # ys) c)"

text \<open>The class \<open>\s\<close>: the white space and line terminator code units of ECMAScript.\<close>

definition whiteSpace :: "cu \<Rightarrow> bool" where
  "whiteSpace c \<longleftrightarrow>
     (0x09 \<le> c \<and> c \<le> 0x0D) \<or> c = 0x20 \<or> c = 0xA0 \<or> c = 0x1680 \<or>
     (0x2000 \<le> c \<and> c \<le> 0x200A) \<or> c = 0x2028 \<or> c = 0x2029 \<or> c = 0x202F \<or>
     c = 0x205F \<or> c = 0x3000 \<or> c = 0xFEFF"

text \<open>
  The constructor takes no argument. \<open>extraSeparators\<close> is
  \<open>("").replace(...)\<close> and \<open>extraCombinators\<close> is
  \<open>(this.extraCombinators || "").replace(...)\<close> with the field still unset, so both are
  the escaped empty string. \<open>separatorRegex\<close> is
  \<open>[\s.\uFF0E\u3002\u30FB|\uFF5C/\uFF0F${extraSeparators}]\<close> and \<open>combinatorRegex\<close> is
  \<open>[+\uFF0B${extraCombinators}]\<close>.
\<close>

definition new_FuriganaOptions :: FuriganaOptions where
  "new_FuriganaOptions =
     \<lparr> fallbackParens = [0x3010, 0x3011],
       extraSeparators = escapeExtra [],
       extraCombinators = escapeExtra [],
       separatorRegex = (\<lambda>c. whiteSpace c \<or> c = 0x2E \<or> c = 0xFF0E \<or> c = 0x3002 \<or>
          c = 0x30FB \<or> c = 0x7C \<or> c = 0xFF5C \<or> c = 0x2F \<or> c = 0xFF0F \<or>
          classExtra (escapeExtra []) c),
       combinatorRegex = (\<lambda>c. c = 0x2B \<or> c = 0xFF0B \<or> classExtra (escapeExtra []) c) \<rparr>"

text \<open>
  \<open>furigana.replace(options.separatorRegex, ".")\<close> and then
  \<open>furigana.replace(options.combinatorRegex, "+")\<close>: each code unit in the class is
  replaced, the others are kept.
\<close>

definition cleanFurigana :: "jstring \<Rightarrow> FuriganaOptions \<Rightarrow> jstring" where
  "cleanFurigana furigana options =
     (let furigana1 = map (\<lambda>c. if separatorRegex options c then 0x2E else c) furigana
      in map (\<lambda>c. if combinatorRegex options c then 0x2B else c) furigana1)"

section \<open>\<open>matchFurigana\<close>\<close>

text \<open>
  The reconstruction loop of \<open>matchFurigana\<close>, with the variables \<open>result\<close>,
  \<open>curBodyPart\<close>, \<open>curToptextPart\<close>, \<open>matchIndex\<close> and \<open>lastType\<close>. The loop returns
  \<open>None\<close> when it reads a group the match does not have.
\<close>

fun matchFurigana_loop ::
  "jstring \<Rightarrow> jstring list \<Rightarrow> (jstring \<times> jstring) list \<Rightarrow> jstring \<Rightarrow> jstring \<Rightarrow> nat \<Rightarrow> ctype
     \<Rightarrow> (jstring \<times> jstring) list option" where
  "matchFurigana_loop [] m result curBodyPart curToptextPart matchIndex lastType =
     Some (result @ [(curBodyPart, curToptextPart)])"
| "matchFurigana_loop (c # cs) m result curBodyPart curToptextPart matchIndex lastType =
     (if kanjiRegex c then
        if lastType = Kana \<or> lastType = Other then
          (case matchGet m matchIndex of
             None \<Rightarrow> None
           | Some g \<Rightarrow>
               matchFurigana_loop cs m
                 (if curBodyPart \<noteq> [] then result @ [(curBodyPart, curToptextPart)] else result)
                 [c] g (matchIndex + 1) Kanji)
        else
          (case matchGet m matchIndex of
             None \<Rightarrow> None
           | Some connection \<Rightarrow>
               (case matchGet m (matchIndex + 1) of
                  None \<Rightarrow> None
                | Some g \<Rightarrow>
                    if connection = [0x2B] \<or> connection = [] then
                      matchFurigana_loop cs m result (curBodyPart @ [c]) (curToptextPart @ g)
                        (matchIndex + 2) lastType
                    else
                      matchFurigana_loop cs m (result @ [(curBodyPart, curToptextPart)]) [c] g
                        (matchIndex + 2) lastType))
      else if lastType \<noteq> Kanji then
        matchFurigana_loop cs m result (curBodyPart @ [c]) curToptextPart matchIndex lastType
      else
        matchFurigana_loop cs m (result @ [(curBodyPart, curToptextPart)]) [c] [] matchIndex
          (if kanaRegex c then Kana else Other))"

text \<open>\<open>/^[=\uFF1D]/.test(toptext)\<close>.\<close>

definition startsWithEquals :: "jstring \<Rightarrow> bool" where
  "startsWithEquals toptext \<longleftrightarrow> (case toptext of [] \<Rightarrow> False | c # _ \<Rightarrow> c = 0x3D \<or> c = 0xFF1D)"

definition matchFurigana ::
  "jstring \<Rightarrow> jstring \<Rightarrow> FuriganaOptions \<Rightarrow> (jstring \<times> jstring) list option" where
  "matchFurigana body toptext options =
     (if startsWithEquals toptext then Some [(body, drop 1 toptext)]
      else case bodyToRegex body of
        None \<Rightarrow> Some [(body, toptext)]
      | Some bodyRegex \<Rightarrow>
          (case exec bodyRegex (cleanFurigana toptext options) of
             None \<Rightarrow> Some [(body, toptext)]
           | Some m \<Rightarrow> matchFurigana_loop body m [] [] [] 1 Other))"

section \<open>\<open>rubifyEveryCharacter\<close> and \<open>furigana\<close>\<close>

text \<open>
  \<open>for (let c of body)\<close> uses the string iterator, which yields code points: a high
  surrogate followed by a low surrogate is one two-unit string, every other code unit
  is a one-unit string.
\<close>

definition highSurrogate :: "cu \<Rightarrow> bool" where
  "highSurrogate c \<longleftrightarrow> 0xD800 \<le> c \<and> c \<le> 0xDBFF"

definition lowSurrogate :: "cu \<Rightarrow> bool" where
  "lowSurrogate c \<longleftrightarrow> 0xDC00 \<le> c \<and> c \<le> 0xDFFF"

fun stringIterator :: "jstring \<Rightarrow> jstring list" where
  "stringIterator [] = []"
| "stringIterator [c] = [[c]]"
| "stringIterator (c # d # cs) =
     (if highSurrogate c \<and> lowSurrogate d then [c, d] # stringIterator cs
      else [c] # stringIterator (d # cs))"

definition rubifyEveryCharacter :: "jstring \<Rightarrow> jstring \<Rightarrow> (jstring \<times> jstring) list" where
  "rubifyEveryCharacter body toptext =
     (let topmark = drop 1 toptext;
          topmark = (if topmark = [] then [0x25CF] else topmark)
      in map (\<lambda>c. (c, topmark)) (stringIterator body))"

text \<open>
  The compiled form of the same function walks the body by index
  (\<open>for (_i = 0; _i < body_1.length; _i++) { c = body_1[_i]; ... }\<close>), one code unit at
  a time. The two forms agree on every body without surrogate code units
  (\<open>rubifyEveryCharacter_indexed_eq\<close> below).
\<close>

definition rubifyEveryCharacter_indexed :: "jstring \<Rightarrow> jstring \<Rightarrow> (jstring \<times> jstring) list" where
  "rubifyEveryCharacter_indexed body toptext =
     (let topmark = drop 1 toptext;
          topmark = (if topmark = [] then [0x25CF] else topmark)
      in map (\<lambda>c. ([c], topmark)) body)"

text \<open>\<open>/^[*\uFF0A].?/.test(toptext)\<close>: the optional \<open>.\<close> never makes the test fail.\<close>

definition emphasisDotsIndicatorRegex :: "jstring \<Rightarrow> bool" where
  "emphasisDotsIndicatorRegex toptext \<longleftrightarrow>
     (case toptext of [] \<Rightarrow> False | c # _ \<Rightarrow> c = 0x2A \<or> c = 0xFF0A)"

definition furigana ::
  "jstring \<Rightarrow> jstring \<Rightarrow> FuriganaOptions \<Rightarrow> (jstring \<times> jstring) list option" where
  "furigana body toptext options =
     (if emphasisDotsIndicatorRegex toptext then Some (rubifyEveryCharacter body toptext)
      else matchFurigana body toptext options)"

section \<open>Auxiliary notions for the proofs\<close>

text \<open>The capturing fragments of a pattern, and what each of them can capture.\<close>

fun is_group :: "relem \<Rightarrow> bool" where
  "is_group combinatorOrSeparatorGroup = True"
| "is_group furiganaGroup = True"
| "is_group _ = False"

fun cap_ok :: "relem \<Rightarrow> jstring \<Rightarrow> bool" where
  "cap_ok furiganaGroup g = (g \<noteq> [] \<and> list_all (\<lambda>c. \<not> plusDot c) g)"
| "cap_ok _ g = list_all plusDot g"

text \<open>The capturing fragments \<open>bodyToRegex\<close> emits for a body, in order.\<close>

definition groups :: "jstring \<Rightarrow> ctype \<Rightarrow> relem list" where
  "groups body lt = filter is_group (bodyToRegex_loop body [] lt)"

text \<open>
  A pair of the output is well formed when its reading has neither \<open>+\<close> nor \<open>.\<close> and,
  if its base begins with a kanji, is not empty.
\<close>

fun pair_ok :: "jstring \<times> jstring \<Rightarrow> bool" where
  "pair_ok ([], r) = list_all (\<lambda>c. \<not> plusDot c) r"
| "pair_ok (c # bs, r) = (list_all (\<lambda>c. \<not> plusDot c) r \<and> (kanjiRegex c \<longrightarrow> r \<noteq> []))"

text \<open>The unfolding rules used to evaluate the program on concrete strings.\<close>

lemmas eval_defs = furigana_def emphasisDotsIndicatorRegex_def matchFurigana_def startsWithEquals_def
  bodyToRegex_def kanjiRegex_def kanaRegex_def exec_def cleanFurigana_def new_FuriganaOptions_def
  whiteSpace_def escapeExtra_def plusDot_def matchGet_def rubifyEveryCharacter_def
  highSurrogate_def lowSurrogate_def

section \<open>The matcher and the pattern\<close>

lemma exec_from_Bos_later: "exec_from (Bos # es) (Suc n) s = None"
  by (induction s arbitrary: n) simp_all

lemma exec_Bos: "exec (Bos # es) s = rmatch es 0 s"
  by (cases s) (simp_all add: exec_def exec_from_Bos_later split: option.splits)

lemma bodyToRegex_loop_acc:
  "bodyToRegex_loop body acc lt = acc @ bodyToRegex_loop body [] lt"
proof (induction body arbitrary: acc lt)
  case Nil
  then show ?case by simp
next
  case (Cons c cs)
  show ?case
    by (simp add: Cons.IH [of "_ @ _"] Cons.IH [of "[_]"] Cons.IH [of "[_, _]"] Cons.IH [of "acc"])
qed

lemma bodyToRegex_Some:
  "bodyToRegex body = Some (Bos # bodyToRegex_loop body [] Other @ [Eos])"
  using bodyToRegex_loop_acc [of body "[Bos]" Other] by (simp add: bodyToRegex_def Let_def)

lemma try_lengths_Some:
  "try_lengths f n = Some r \<Longrightarrow> \<exists>k. 1 \<le> k \<and> k \<le> n \<and> f k = Some r"
proof (induction n)
  case 0
  then show ?case by simp
next
  case (Suc n)
  show ?case
  proof (cases "f (Suc n)")
    case None
    with Suc obtain k where "1 \<le> k" "k \<le> n" "f k = Some r" by auto
    then show ?thesis by (intro exI [of _ k]) simp
  next
    case (Some a)
    with Suc.prems show ?thesis by (intro exI [of _ "Suc n"]) simp
  qed
qed

lemma take_run_ok:
  "k \<le> length (takeWhile P s) \<Longrightarrow> list_all P (take k s)"
proof (induction s arbitrary: k)
  case Nil
  then show ?case by simp
next
  case (Cons x xs)
  then show ?case by (cases k) (auto split: if_splits)
qed

lemma rmatch_caps:
  "rmatch es pos s = Some m \<Longrightarrow> list_all2 cap_ok (filter is_group es) m"
proof (induction es arbitrary: pos s m)
  case Nil
  then show ?case by simp
next
  case (Cons e es)
  show ?case
  proof (cases e)
    case Bos
    with Cons.prems have "rmatch es pos s = Some m" by (simp split: if_splits)
    with Bos show ?thesis by (simp add: Cons.IH)
  next
    case Eos
    with Cons.prems have "rmatch es pos s = Some m" by (simp split: if_splits)
    with Eos show ?thesis by (simp add: Cons.IH)
  next
    case (Lit c)
    with Cons.prems obtain pos' s' where "rmatch es pos' s' = Some m"
      by (auto split: if_splits list.splits)
    with Lit show ?thesis by (simp add: Cons.IH)
  next
    case combinatorOrSeparatorGroup
    with Cons.prems obtain pos' s' g m' where
      "rmatch es pos' s' = Some m'" "m = g # m'" "list_all plusDot g"
      by (auto split: if_splits list.splits option.splits)
    with combinatorOrSeparatorGroup show ?thesis by (simp add: Cons.IH)
  next
    case combinatorOrSeparator
    with Cons.prems obtain pos' s' where "rmatch es pos' s' = Some m"
      by (auto split: if_splits list.splits option.splits)
    with combinatorOrSeparator show ?thesis by (simp add: Cons.IH)
  next
    case combinatorOnly
    with Cons.prems obtain pos' s' where "rmatch es pos' s' = Some m"
      by (auto split: if_splits list.splits option.splits)
    with combinatorOnly show ?thesis by (simp add: Cons.IH)
  next
    case furiganaGroup
    with Cons.prems obtain k where k: "1 \<le> k" "k \<le> length (takeWhile (\<lambda>c. \<not> plusDot c) s)"
      and r: "map_option ((#) (take k s)) (rmatch es (pos + k) (drop k s)) = Some m"
      using try_lengths_Some [of _ _ m] by fastforce
    from r obtain m' where m': "rmatch es (pos + k) (drop k s) = Some m'" "m = take k s # m'"
      by auto
    have "take k s \<noteq> []"
      using k length_takeWhile_le [of "\<lambda>c. \<not> plusDot c" s] by auto
    moreover have "list_all (\<lambda>c. \<not> plusDot c) (take k s)"
      using k(2) by (rule take_run_ok)
    ultimately have "cap_ok furiganaGroup (take k s)" by simp
    with Cons.IH [OF m'(1)] m'(2) furiganaGroup show ?thesis by simp
  qed
qed

section \<open>The reconstruction loop\<close>

lemma matchGet_drop:
  "drop (mi - 1) m = g # rest \<Longrightarrow> 1 \<le> mi \<Longrightarrow> matchGet m mi = Some g \<and> drop mi m = rest"
proof -
  assume d: "drop (mi - 1) m = g # rest" and mi: "1 \<le> mi"
  have len: "mi - 1 < length m"
    using d by (cases "mi - 1 < length m") auto
  have "m ! (mi - 1) = g"
    using d len by (metis Cons_nth_drop_Suc list.inject)
  moreover have "drop (Suc (mi - 1)) m = rest"
    using d len by (metis Cons_nth_drop_Suc list.inject)
  ultimately show ?thesis using len mi by (simp add: matchGet_def)
qed

lemma loop_concat:
  "matchFurigana_loop body m res cb ct mi lt = Some ps \<Longrightarrow>
     concat (map fst ps) = concat (map fst res) @ cb @ body"
proof (induction body arbitrary: res cb ct mi lt)
  case Nil
  then show ?case by auto
next
  case (Cons c cs)
  from Cons.prems obtain res' cb' ct' mi' lt' where
    step: "matchFurigana_loop cs m res' cb' ct' mi' lt' = Some ps"
    and eq: "concat (map fst res') @ cb' = concat (map fst res) @ cb @ [c]"
    by (auto split: if_splits option.splits)
  from Cons.IH [OF step] eq show ?case by (metis append.assoc append_Cons append_Nil)
qed

lemma groups_Nil: "groups [] lt = []"
  by (simp add: groups_def)

lemma groups_kanji_kanji:
  "kanjiRegex c \<Longrightarrow>
     groups (c # cs) Kanji = combinatorOrSeparatorGroup # furiganaGroup # groups cs Kanji"
  using bodyToRegex_loop_acc [of cs "[combinatorOrSeparatorGroup, furiganaGroup]" Kanji]
  by (simp add: groups_def)

lemma groups_kanji_other:
  "kanjiRegex c \<Longrightarrow> lt \<noteq> Kanji \<Longrightarrow> groups (c # cs) lt = furiganaGroup # groups cs Kanji"
  using bodyToRegex_loop_acc [of cs "[combinatorOrSeparator, furiganaGroup]" Kanji]
    bodyToRegex_loop_acc [of cs "[furiganaGroup]" Kanji]
  by (simp add: groups_def)

lemma groups_nonkanji:
  "\<not> kanjiRegex c \<Longrightarrow> groups (c # cs) lt = groups cs (if kanaRegex c then Kana else Other)"
  using bodyToRegex_loop_acc [of cs "[combinatorOrSeparator, Lit c]" Kana]
    bodyToRegex_loop_acc [of cs "[Lit c]" Kana]
    bodyToRegex_loop_acc [of cs "[combinatorOnly]" Other]
  by (simp add: groups_def)

lemma pair_ok_snoc: "pair_ok (cb, ct) \<Longrightarrow> \<not> kanjiRegex c \<Longrightarrow> pair_ok (cb @ [c], ct)"
  by (cases cb) simp_all

lemma pair_ok_merge:
  "pair_ok (cb, ct) \<Longrightarrow> cap_ok furiganaGroup g \<Longrightarrow> pair_ok (cb @ [c], ct @ g)"
  by (cases cb) simp_all

lemma pair_ok_start: "cap_ok furiganaGroup g \<Longrightarrow> pair_ok ([c], g)"
  by simp

lemma pair_ok_plain: "\<not> kanjiRegex c \<Longrightarrow> pair_ok ([c], [])"
  by simp

lemma loop_ok:
  assumes "list_all2 cap_ok (groups body lt) (drop (mi - 1) m)"
    and "1 \<le> mi"
    and "(lt' = Kanji) = (lt = Kanji)"
    and "list_all pair_ok res"
    and "pair_ok (cb, ct)"
  shows "\<exists>ps. matchFurigana_loop body m res cb ct mi lt' = Some ps \<and> list_all pair_ok ps"
  using assms
proof (induction body arbitrary: lt lt' res cb ct mi)
  case Nil
  then show ?case by simp
next
  case (Cons c cs)
  show ?case
  proof (cases "kanjiRegex c")
    case kanji: True
    show ?thesis
    proof (cases "lt = Kanji")
      case True
      with Cons.prems(3) have lt': "lt' = Kanji" by simp
      from Cons.prems(1) True kanji obtain g1 g2 rest where
        d: "drop (mi - 1) m = g1 # g2 # rest" and g2: "cap_ok furiganaGroup g2"
        and rest: "list_all2 cap_ok (groups cs Kanji) rest"
        by (auto simp: groups_kanji_kanji list_all2_Cons1)
      from matchGet_drop [OF d Cons.prems(2)] have
        m1: "matchGet m mi = Some g1" and d1: "drop ((mi + 1) - 1) m = g2 # rest" by simp_all
      from matchGet_drop [OF d1] have
        m2: "matchGet m (mi + 1) = Some g2" and d2: "drop ((mi + 2) - 1) m = rest" by simp_all
      have next_mi: "1 \<le> mi + 2" by simp
      have kk: "(Kanji = Kanji) = (Kanji = Kanji)" by simp
      have a: "\<exists>ps. matchFurigana_loop cs m res (cb @ [c]) (ct @ g2) (mi + 2) Kanji = Some ps
          \<and> list_all pair_ok ps"
        using rest d2 Cons.prems(4,5) g2
        by (intro Cons.IH [of Kanji "mi + 2" Kanji]) (simp_all add: pair_ok_merge del: cap_ok.simps)
      have b: "\<exists>ps. matchFurigana_loop cs m (res @ [(cb, ct)]) [c] g2 (mi + 2) Kanji = Some ps
          \<and> list_all pair_ok ps"
        using rest d2 Cons.prems(4,5) g2
        by (intro Cons.IH [of Kanji "mi + 2" Kanji]) simp_all
      from a b show ?thesis using kanji lt' m1 m2 by simp
    next
      case False
      with Cons.prems(3) have lt': "lt' = Kana \<or> lt' = Other" by (cases lt') simp_all
      from Cons.prems(1) False kanji obtain g rest where
        d: "drop (mi - 1) m = g # rest" and g: "cap_ok furiganaGroup g"
        and rest: "list_all2 cap_ok (groups cs Kanji) rest"
        by (auto simp: groups_kanji_other list_all2_Cons1)
      from matchGet_drop [OF d Cons.prems(2)] have
        m1: "matchGet m mi = Some g" and d1: "drop ((mi + 1) - 1) m = rest" by simp_all
      have "\<exists>ps. matchFurigana_loop cs m (if cb \<noteq> [] then res @ [(cb, ct)] else res) [c] g
          (mi + 1) Kanji = Some ps \<and> list_all pair_ok ps"
        using rest d1 Cons.prems(4,5) g
        by (intro Cons.IH [of Kanji "mi + 1" Kanji]) simp_all
      then show ?thesis using kanji lt' m1 by auto
    qed
  next
    case nonkanji: False
    let ?t = "if kanaRegex c then Kana else Other"
    from Cons.prems(1) nonkanji have rest: "list_all2 cap_ok (groups cs ?t) (drop (mi - 1) m)"
      by (simp add: groups_nonkanji)
    show ?thesis
    proof (cases "lt' = Kanji")
      case True
      have "\<exists>ps. matchFurigana_loop cs m (res @ [(cb, ct)]) [c] [] mi ?t = Some ps
          \<and> list_all pair_ok ps"
        using rest Cons.prems(2,4,5) nonkanji
        by (intro Cons.IH [of ?t mi ?t]) simp_all
      then show ?thesis using nonkanji True by simp
    next
      case False
      have "\<exists>ps. matchFurigana_loop cs m res (cb @ [c]) ct mi lt' = Some ps
          \<and> list_all pair_ok ps"
        using rest Cons.prems(2,4,5) False nonkanji
        by (intro Cons.IH [of ?t mi lt']) (simp_all add: pair_ok_snoc)
      then show ?thesis using nonkanji False by simp
    qed
  qed
qed

lemma pair_ok_kanji:
  "pair_ok (c # bs, r) \<Longrightarrow> kanjiRegex c \<Longrightarrow> r \<noteq> [] \<and> 0x2B \<notin> set r \<and> 0x2E \<notin> set r"
  by (auto simp: list_all_iff plusDot_def)

lemma groups_whole:
  "filter is_group (bodyToRegex_loop body [] Other @ [Eos]) = groups body Other"
  by (simp add: groups_def)

lemma matched_loop:
  assumes "bodyToRegex body = Some re" and "exec re s = Some m"
  shows "\<exists>ps. matchFurigana_loop body m [] [] [] 1 Other = Some ps \<and> list_all pair_ok ps"
proof -
  from assms(1) have re: "re = Bos # bodyToRegex_loop body [] Other @ [Eos]"
    by (simp add: bodyToRegex_Some)
  with assms(2) have "rmatch (bodyToRegex_loop body [] Other @ [Eos]) 0 s = Some m"
    by (simp add: exec_Bos)
  then have "list_all2 cap_ok (groups body Other) m"
    using rmatch_caps groups_whole by metis
  then have "list_all2 cap_ok (groups body Other) (drop (1 - 1) m)" by simp
  then show ?thesis
    by (rule loop_ok) simp_all
qed

lemma concat_stringIterator: "concat (stringIterator s) = s"
  by (induction s rule: stringIterator.induct) simp_all

lemma stringIterator_bmp:
  "list_all (\<lambda>u. \<not> highSurrogate u) s \<Longrightarrow> stringIterator s = map (\<lambda>u. [u]) s"
  by (induction s rule: stringIterator.induct) simp_all

lemma rubifyEveryCharacter_indexed_eq:
  "list_all (\<lambda>u. \<not> highSurrogate u) body \<Longrightarrow>
     rubifyEveryCharacter_indexed body toptext = rubifyEveryCharacter body toptext"
  by (simp add: rubifyEveryCharacter_indexed_def rubifyEveryCharacter_def Let_def
      stringIterator_bmp)

lemma rubifyEveryCharacter_indexed_concat:
  "concat (map fst (rubifyEveryCharacter_indexed body toptext)) = body"
  by (induction body) (simp_all add: rubifyEveryCharacter_indexed_def Let_def)

lemma matchFurigana_total_concat:
  "\<exists>ps. matchFurigana body toptext options = Some ps \<and> concat (map fst ps) = body"
proof (cases "startsWithEquals toptext")
  case True
  then show ?thesis by (simp add: matchFurigana_def)
next
  case False
  show ?thesis
  proof (cases "exec (Bos # bodyToRegex_loop body [] Other @ [Eos]) (cleanFurigana toptext options)")
    case None
    with False show ?thesis by (simp add: matchFurigana_def bodyToRegex_Some)
  next
    case (Some m)
    from matched_loop [OF bodyToRegex_Some Some] obtain ps where
      ps: "matchFurigana_loop body m [] [] [] 1 Other = Some ps" by blast
    from loop_concat [OF ps] have "concat (map fst ps) = body" by simp
    with ps Some False show ?thesis by (simp add: matchFurigana_def bodyToRegex_Some)
  qed
qed

lemma cleanFurigana_twice:
  "\<not> separatorRegex options 0x2B \<or> combinatorRegex options 0x2E \<Longrightarrow>
     cleanFurigana (cleanFurigana r options) options = cleanFurigana r options"
  by (auto simp: cleanFurigana_def)

lemma cleanFurigana_fixed:
  assumes "\<not> separatorRegex options 0x2B" and "\<not> combinatorRegex options 0x2E"
    and "list_all (\<lambda>c. c = 0x2E \<or> c = 0x2B \<or>
        (\<not> separatorRegex options c \<and> \<not> combinatorRegex options c)) r"
  shows "cleanFurigana r options = r"
proof -
  from assms have "\<forall>c\<in>set r.
      (if combinatorRegex options (if separatorRegex options c then 0x2E else c)
       then 0x2B else (if separatorRegex options c then 0x2E else c)) = c"
    by (auto simp: list_all_iff)
  then show ?thesis
    by (simp add: cleanFurigana_def map_idI)
qed

lemma new_FuriganaOptions_marks:
  "\<not> separatorRegex new_FuriganaOptions 0x2B" "\<not> combinatorRegex new_FuriganaOptions 0x2E"
  by (simp_all add: new_FuriganaOptions_def whiteSpace_def escapeExtra_def)

section \<open>The claims\<close>

subsection \<open>C1: the base segments concatenate to the body\<close>

text \<open>
  Claim C1. For every body, reading and options, in every mode (disabled, emphasis,
  successful match, fallback), \<open>furigana\<close> returns a sequence of pairs, and the base
  segments of that sequence, concatenated in order, are exactly the body.
\<close>

theorem furigana_base_roundtrip:
  "\<exists>ps. furigana body toptext options = Some ps \<and> concat (map fst ps) = body"
proof (cases "emphasisDotsIndicatorRegex toptext")
  case True
  have "concat (map fst (rubifyEveryCharacter body toptext)) = body"
    by (simp add: rubifyEveryCharacter_def Let_def comp_def concat_stringIterator)
  with True show ?thesis by (simp add: furigana_def)
next
  case False
  with matchFurigana_total_concat [of body toptext options] show ?thesis
    by (simp add: furigana_def)
qed

text \<open>
  An instance of C1 on the body \<open>U+98DF U+3079 U+308B\<close> with the reading
  \<open>U+305F U+3079 U+308B\<close>, where the pattern matches.
\<close>

theorem furigana_base_roundtrip_witness:
  "furigana [0x98DF, 0x3079, 0x308B] [0x305F, 0x3079, 0x308B] new_FuriganaOptions =
     Some [([0x98DF], [0x305F]), ([0x3079, 0x308B], [])] \<and>
   (\<exists>ps. furigana [0x98DF, 0x3079, 0x308B] [0x305F, 0x3079, 0x308B] new_FuriganaOptions = Some ps \<and>
      concat (map fst ps) = [0x98DF, 0x3079, 0x308B])"
proof -
  have "furigana [0x98DF, 0x3079, 0x308B] [0x305F, 0x3079, 0x308B] new_FuriganaOptions =
     Some [([0x98DF], [0x305F]), ([0x3079, 0x308B], [])]"
    by (simp add: eval_defs)
  with furigana_base_roundtrip [of "[0x98DF, 0x3079, 0x308B]" "[0x305F, 0x3079, 0x308B]"
      new_FuriganaOptions]
  show ?thesis by blast
qed

subsection \<open>C2: the worked example with separators\<close>

text \<open>
  Claim C2 as stated fails. The body is \<open>U+53EF U+611B U+3044 U+72AC\<close> and the reading
  \<open>U+304B U+30FB U+308F U+3044 U+30FB U+3044 U+30FB U+3044 U+306C\<close>. The claimed third
  pair gives the kana \<open>U+3044\<close> the reading \<open>U+3044\<close>; the program does not return
  that sequence.
\<close>

theorem kawaii_inu_counterexample:
  "furigana [0x53EF, 0x611B, 0x3044, 0x72AC]
     [0x304B, 0x30FB, 0x308F, 0x3044, 0x30FB, 0x3044, 0x30FB, 0x3044, 0x306C] new_FuriganaOptions
   \<noteq> Some [([0x53EF], [0x304B]), ([0x611B], [0x308F, 0x3044]), ([0x3044], [0x3044]),
        ([0x72AC], [0x3044, 0x306C])]"
  by (simp add: eval_defs)

text \<open>
  Claim C2, amended. On that input \<open>furigana\<close> returns four pairs, and the kana
  \<open>U+3044\<close> forms its own pair with the empty reading: a kana of the body is matched
  literally in the reading and never receives a reading segment.
\<close>

theorem kawaii_inu:
  "furigana [0x53EF, 0x611B, 0x3044, 0x72AC]
     [0x304B, 0x30FB, 0x308F, 0x3044, 0x30FB, 0x3044, 0x30FB, 0x3044, 0x306C] new_FuriganaOptions
   = Some [([0x53EF], [0x304B]), ([0x611B], [0x308F, 0x3044]), ([0x3044], []),
        ([0x72AC], [0x3044, 0x306C])]"
  by (simp add: eval_defs)

subsection \<open>C3: \<open>bodyToRegex\<close> on the empty body\<close>

text \<open>
  Claim C3 says that \<open>bodyToRegex\<close> returns \<open>null\<close> exactly for the empty body. The
  guard \<open>regexStr === ""\<close> can never hold, because \<open>regexStr\<close> starts as \<open>"^"\<close> and only
  grows: for the empty body the function returns the pattern \<open>^$\<close>, and it returns
  \<open>null\<close> for no body at all.
\<close>

theorem bodyToRegex_never_null:
  "bodyToRegex [] = Some [Bos, Eos] \<and> bodyToRegex body \<noteq> None"
  by (simp add: bodyToRegex_Some)

subsection \<open>C4: the fallback pair\<close>

text \<open>
  Claim C4. If the reading has no leading \<open>=\<close>, \<open>U+FF1D\<close>, \<open>*\<close> or \<open>U+FF0A\<close>, and
  there is no pattern or the pattern does not match the cleaned reading, then
  \<open>furigana\<close> returns the single pair of the body and the original, uncleaned reading.
\<close>

theorem furigana_fallback:
  assumes "\<not> startsWithEquals toptext" and "\<not> emphasisDotsIndicatorRegex toptext"
    and "bodyToRegex body = None \<or>
      (\<exists>re. bodyToRegex body = Some re \<and> exec re (cleanFurigana toptext options) = None)"
  shows "furigana body toptext options = Some [(body, toptext)]"
  using assms by (auto simp: furigana_def matchFurigana_def)

text \<open>
  The example of C4: the body \<open>U+98DF U+3079 U+308B\<close> with the reading
  \<open>U+305F U+3079 U+3079\<close>, which the pattern does not match.
\<close>

theorem furigana_fallback_witness:
  "\<not> startsWithEquals [0x305F, 0x3079, 0x3079] \<and>
   \<not> emphasisDotsIndicatorRegex [0x305F, 0x3079, 0x3079] \<and>
   (\<exists>re. bodyToRegex [0x98DF, 0x3079, 0x308B] = Some re \<and>
      exec re (cleanFurigana [0x305F, 0x3079, 0x3079] new_FuriganaOptions) = None) \<and>
   furigana [0x98DF, 0x3079, 0x308B] [0x305F, 0x3079, 0x3079] new_FuriganaOptions =
     Some [([0x98DF, 0x3079, 0x308B], [0x305F, 0x3079, 0x3079])]"
proof -
  have h1: "\<not> startsWithEquals [0x305F, 0x3079, 0x3079]"
    by (simp add: startsWithEquals_def)
  have h2: "\<not> emphasisDotsIndicatorRegex [0x305F, 0x3079, 0x3079]"
    by (simp add: emphasisDotsIndicatorRegex_def)
  have h3: "\<exists>re. bodyToRegex [0x98DF, 0x3079, 0x308B] = Some re \<and>
      exec re (cleanFurigana [0x305F, 0x3079, 0x3079] new_FuriganaOptions) = None"
    by (simp add: eval_defs)
  from furigana_fallback [OF h1 h2 disjI2, OF h3] h1 h2 h3 show ?thesis by blast
qed

subsection \<open>C5: disabled mode\<close>

text \<open>
  Claim C5. If the first code unit of the reading is \<open>=\<close> or \<open>U+FF1D\<close>, then
  \<open>furigana\<close> returns the single pair of the body and the reading without that first
  unit, whatever the body and the options are.
\<close>

theorem furigana_disabled:
  assumes "toptext = c # rest" and "c = 0x3D \<or> c = 0xFF1D"
  shows "furigana body toptext options = Some [(body, rest)]"
  using assms by (auto simp: furigana_def matchFurigana_def startsWithEquals_def
      emphasisDotsIndicatorRegex_def)

text \<open>
  The example of C5: the body \<open>U+98DF U+3079 U+308B\<close> with the reading
  \<open>U+FF1D U+305F U+3079 U+308B\<close>.
\<close>

theorem furigana_disabled_witness:
  "furigana [0x98DF, 0x3079, 0x308B] [0xFF1D, 0x305F, 0x3079, 0x308B] new_FuriganaOptions =
     Some [([0x98DF, 0x3079, 0x308B], [0x305F, 0x3079, 0x308B])]"
  using furigana_disabled [of "[0xFF1D, 0x305F, 0x3079, 0x308B]" "0xFF1D" "[0x305F, 0x3079, 0x308B]"
      "[0x98DF, 0x3079, 0x308B]" new_FuriganaOptions]
  by simp

subsection \<open>C6: emphasis mode\<close>

text \<open>
  Claim C6. If the first code unit of the reading is \<open>*\<close> or \<open>U+FF0A\<close>, then
  \<open>furigana\<close> returns one pair per character of the body, each made of that character
  and the mark; the mark is the rest of the reading, or \<open>U+25CF\<close> when the rest is
  empty. The characters are those the string iterator yields: they concatenate to the
  body, and on a body without surrogate code units they are its code units, one each.
  The result depends neither on the options nor on the pattern of the body.
\<close>

theorem furigana_emphasis:
  assumes "toptext = c # rest" and "c = 0x2A \<or> c = 0xFF0A"
  shows "furigana body toptext options =
      Some (map (\<lambda>ch. (ch, if rest = [] then [0x25CF] else rest)) (stringIterator body)) \<and>
    concat (stringIterator body) = body \<and>
    (list_all (\<lambda>u. \<not> highSurrogate u) body \<longrightarrow> stringIterator body = map (\<lambda>u. [u]) body)"
  using assms by (auto simp: furigana_def rubifyEveryCharacter_def emphasisDotsIndicatorRegex_def
      concat_stringIterator stringIterator_bmp)

text \<open>
  The examples of C6: the body \<open>U+3060 U+304B U+3089\<close> with the readings \<open>*\<close> and
  \<open>*+\<close>.
\<close>

theorem furigana_emphasis_witness:
  "list_all (\<lambda>u. \<not> highSurrogate u) [0x3060, 0x304B, 0x3089] \<and>
   stringIterator [0x3060, 0x304B, 0x3089] = [[0x3060], [0x304B], [0x3089]] \<and>
   furigana [0x3060, 0x304B, 0x3089] [0x2A] new_FuriganaOptions =
     Some [([0x3060], [0x25CF]), ([0x304B], [0x25CF]), ([0x3089], [0x25CF])] \<and>
   furigana [0x3060, 0x304B, 0x3089] [0x2A, 0x2B] new_FuriganaOptions =
     Some [([0x3060], [0x2B]), ([0x304B], [0x2B]), ([0x3089], [0x2B])]"
proof -
  have b: "list_all (\<lambda>u. \<not> highSurrogate u) [0x3060, 0x304B, 0x3089]"
    by (simp add: highSurrogate_def)
  from furigana_emphasis [of "[0x2A]" "0x2A" "[]" "[0x3060, 0x304B, 0x3089]" new_FuriganaOptions]
    furigana_emphasis [of "[0x2A, 0x2B]" "0x2A" "[0x2B]" "[0x3060, 0x304B, 0x3089]" new_FuriganaOptions]
    b
  show ?thesis by simp
qed

subsection \<open>C7: totality\<close>

text \<open>
  Claim C7. For every body, reading and options \<open>furigana\<close> returns a sequence of
  pairs: the reconstruction loop never reads a group the match does not have. When the
  body is empty and the reading has no leading mode marker, the result is the single
  pair of the empty string and the reading.
\<close>

theorem furigana_total:
  "(\<exists>ps. furigana body toptext options = Some ps) \<and>
   (\<not> emphasisDotsIndicatorRegex toptext \<and> \<not> startsWithEquals toptext \<longrightarrow>
      furigana [] toptext options = Some [([], toptext)])"
proof
  show "\<exists>ps. furigana body toptext options = Some ps"
  proof (cases "emphasisDotsIndicatorRegex toptext")
    case True
    then show ?thesis by (simp add: furigana_def)
  next
    case False
    with matchFurigana_total_concat [of body toptext options] show ?thesis
      by (auto simp: furigana_def)
  qed
next
  show "\<not> emphasisDotsIndicatorRegex toptext \<and> \<not> startsWithEquals toptext \<longrightarrow>
      furigana [] toptext options = Some [([], toptext)]"
  proof
    assume a: "\<not> emphasisDotsIndicatorRegex toptext \<and> \<not> startsWithEquals toptext"
    have re: "bodyToRegex [] = Some [Bos, Eos]" by (simp add: bodyToRegex_def)
    have ex: "exec [Bos, Eos] (cleanFurigana toptext options) =
        (if toptext = [] then Some [] else None)"
      by (simp add: exec_Bos cleanFurigana_def)
    show "furigana [] toptext options = Some [([], toptext)]"
      using a by (simp add: furigana_def matchFurigana_def re ex)
  qed
qed

text \<open>
  Instances of C7: a kanji body with the empty reading, and the empty body with the
  reading \<open>U+305F\<close>.
\<close>

theorem furigana_total_witness:
  "(\<exists>ps. furigana [0x98DF] [] new_FuriganaOptions = Some ps) \<and>
   \<not> emphasisDotsIndicatorRegex [0x305F] \<and> \<not> startsWithEquals [0x305F] \<and>
   furigana [] [0x305F] new_FuriganaOptions = Some [([], [0x305F])]"
proof -
  have h: "\<not> emphasisDotsIndicatorRegex [0x305F] \<and> \<not> startsWithEquals [0x305F]"
    by (simp add: emphasisDotsIndicatorRegex_def startsWithEquals_def)
  from furigana_total [of "[0x98DF]" "[]" new_FuriganaOptions]
    furigana_total [of "[]" "[0x305F]" new_FuriganaOptions] h
  show ?thesis by blast
qed

subsection \<open>C8: cleaning twice\<close>

text \<open>
  Claim C8. Cleaning is idempotent: for every reading, cleaning a cleaned reading
  changes nothing, and a reading made only of \<open>.\<close>, \<open>+\<close> and code units that are
  neither separators nor combinators is returned unchanged. The options are those of
  the constructor, which takes no argument: they are the only options the program
  builds.
\<close>

theorem cleanFurigana_idempotent:
  "cleanFurigana (cleanFurigana r new_FuriganaOptions) new_FuriganaOptions =
     cleanFurigana r new_FuriganaOptions \<and>
   (list_all (\<lambda>c. c = 0x2E \<or> c = 0x2B \<or>
        (\<not> separatorRegex new_FuriganaOptions c \<and> \<not> combinatorRegex new_FuriganaOptions c)) r
      \<longrightarrow> cleanFurigana r new_FuriganaOptions = r)"
proof (intro conjI impI)
  show "cleanFurigana (cleanFurigana r new_FuriganaOptions) new_FuriganaOptions =
      cleanFurigana r new_FuriganaOptions"
    by (rule cleanFurigana_twice) (simp add: new_FuriganaOptions_marks)
next
  assume "list_all (\<lambda>c. c = 0x2E \<or> c = 0x2B \<or>
      (\<not> separatorRegex new_FuriganaOptions c \<and> \<not> combinatorRegex new_FuriganaOptions c)) r"
  with new_FuriganaOptions_marks show "cleanFurigana r new_FuriganaOptions = r"
    by (rule cleanFurigana_fixed)
qed

text \<open>
  C8 on the reading \<open>U+304B U+30FB U+FF0B U+3044\<close>: it is cleaned to
  \<open>U+304B . + U+3044\<close>, which cleaning leaves as it is.
\<close>

theorem cleanFurigana_idempotent_witness:
  "cleanFurigana [0x304B, 0x30FB, 0xFF0B, 0x3044] new_FuriganaOptions =
     [0x304B, 0x2E, 0x2B, 0x3044] \<and>
   cleanFurigana (cleanFurigana [0x304B, 0x30FB, 0xFF0B, 0x3044] new_FuriganaOptions)
     new_FuriganaOptions = [0x304B, 0x2E, 0x2B, 0x3044] \<and>
   list_all (\<lambda>c. c = 0x2E \<or> c = 0x2B \<or>
        (\<not> separatorRegex new_FuriganaOptions c \<and> \<not> combinatorRegex new_FuriganaOptions c))
     [0x304B, 0x2E, 0x2B, 0x3044] \<and>
   cleanFurigana [0x304B, 0x2E, 0x2B, 0x3044] new_FuriganaOptions = [0x304B, 0x2E, 0x2B, 0x3044]"
proof -
  have h: "list_all (\<lambda>c. c = 0x2E \<or> c = 0x2B \<or>
        (\<not> separatorRegex new_FuriganaOptions c \<and> \<not> combinatorRegex new_FuriganaOptions c))
     [0x304B, 0x2E, 0x2B, 0x3044]"
    by (simp add: eval_defs)
  have e: "cleanFurigana [0x304B, 0x30FB, 0xFF0B, 0x3044] new_FuriganaOptions =
      [0x304B, 0x2E, 0x2B, 0x3044]"
    by (simp add: eval_defs)
  from cleanFurigana_idempotent [of "[0x304B, 0x30FB, 0xFF0B, 0x3044]"]
    cleanFurigana_idempotent [of "[0x304B, 0x2E, 0x2B, 0x3044]"] h e
  show ?thesis by simp
qed

subsection \<open>C9: an extra separator\<close>

text \<open>
  Claim C9 says that options constructed with \<open>_\<close> as an extra separator make a
  reading with \<open>_\<close> at a boundary give the pairs of the same reading with \<open>.\<close>
  there. The doc comment of \<open>furigana\<close> describes that option (\<open>extraSeparators\<close>,
  example value \<open>"_-*"\<close>), but the constructor takes no argument and computes the
  field from the literal \<open>""\<close>: in the options it builds, the only ones there are,
  \<open>extraSeparators\<close> is empty and \<open>_\<close> is not a separator. On the body
  \<open>U+53EF U+611B\<close> the reading \<open>U+304B _ U+308F U+3044\<close> is then cleaned to itself
  and matched as one run with an empty boundary, which gives one merged pair, where the
  reading \<open>U+304B . U+308F U+3044\<close> gives two pairs.
\<close>

theorem extra_separator_ignored:
  "extraSeparators new_FuriganaOptions = [] \<and>
   \<not> separatorRegex new_FuriganaOptions 0x5F \<and>
   cleanFurigana [0x304B, 0x5F, 0x308F, 0x3044] new_FuriganaOptions =
     [0x304B, 0x5F, 0x308F, 0x3044] \<and>
   furigana [0x53EF, 0x611B] [0x304B, 0x5F, 0x308F, 0x3044] new_FuriganaOptions =
     Some [([0x53EF, 0x611B], [0x304B, 0x5F, 0x308F, 0x3044])] \<and>
   furigana [0x53EF, 0x611B] [0x304B, 0x2E, 0x308F, 0x3044] new_FuriganaOptions =
     Some [([0x53EF], [0x304B]), ([0x611B], [0x308F, 0x3044])]"
  by (simp add: eval_defs)

subsection \<open>C10: the readings of kanji segments\<close>

text \<open>
  Claim C10. In pattern-matching mode, when the pattern matches the cleaned reading,
  every pair of the output whose base segment begins with a kanji has a reading segment
  that is not empty and contains neither \<open>+\<close> nor \<open>.\<close>.
\<close>

theorem kanji_segment_reading:
  assumes "\<not> emphasisDotsIndicatorRegex toptext" and "\<not> startsWithEquals toptext"
    and "bodyToRegex body = Some re"
    and "exec re (cleanFurigana toptext options) = Some m"
    and "furigana body toptext options = Some ps"
    and "(c # bs, r) \<in> set ps" and "kanjiRegex c"
  shows "r \<noteq> [] \<and> 0x2B \<notin> set r \<and> 0x2E \<notin> set r"
proof -
  from matched_loop [OF assms(3,4)] obtain ps' where
    ps': "matchFurigana_loop body m [] [] [] 1 Other = Some ps'" and ok: "list_all pair_ok ps'"
    by blast
  from assms(1-5) ps' have "ps = ps'"
    by (simp add: furigana_def matchFurigana_def)
  with ok assms(6) have "pair_ok (c # bs, r)"
    unfolding list_all_iff by blast
  then show ?thesis using assms(7) by (rule pair_ok_kanji)
qed

text \<open>
  C10 on the body \<open>U+53EF U+611B\<close> with the reading \<open>U+304B U+30FB U+308F U+3044\<close>:
  the pair of \<open>U+611B\<close> has the reading \<open>U+308F U+3044\<close>.
\<close>

theorem kanji_segment_reading_witness:
  "\<not> emphasisDotsIndicatorRegex [0x304B, 0x30FB, 0x308F, 0x3044] \<and>
   \<not> startsWithEquals [0x304B, 0x30FB, 0x308F, 0x3044] \<and>
   bodyToRegex [0x53EF, 0x611B] =
     Some [Bos, furiganaGroup, combinatorOrSeparatorGroup, furiganaGroup, Eos] \<and>
   exec [Bos, furiganaGroup, combinatorOrSeparatorGroup, furiganaGroup, Eos]
     (cleanFurigana [0x304B, 0x30FB, 0x308F, 0x3044] new_FuriganaOptions) =
       Some [[0x304B], [0x2E], [0x308F, 0x3044]] \<and>
   furigana [0x53EF, 0x611B] [0x304B, 0x30FB, 0x308F, 0x3044] new_FuriganaOptions =
     Some [([0x53EF], [0x304B]), ([0x611B], [0x308F, 0x3044])] \<and>
   ([0x611B], [0x308F, 0x3044]) \<in> set [([0x53EF], [0x304B]), ([0x611B], [0x308F, 0x3044 :: cu])] \<and>
   kanjiRegex 0x611B \<and>
   [0x308F, 0x3044] \<noteq> ([] :: jstring) \<and> 0x2B \<notin> set [0x308F, 0x3044 :: cu] \<and>
   0x2E \<notin> set [0x308F, 0x3044 :: cu]"
proof -
  have h1: "\<not> emphasisDotsIndicatorRegex [0x304B, 0x30FB, 0x308F, 0x3044]"
    by (simp add: emphasisDotsIndicatorRegex_def)
  have h2: "\<not> startsWithEquals [0x304B, 0x30FB, 0x308F, 0x3044]"
    by (simp add: startsWithEquals_def)
  have h3: "bodyToRegex [0x53EF, 0x611B] =
      Some [Bos, furiganaGroup, combinatorOrSeparatorGroup, furiganaGroup, Eos]"
    by (simp add: bodyToRegex_def kanjiRegex_def)
  have h4: "exec [Bos, furiganaGroup, combinatorOrSeparatorGroup, furiganaGroup, Eos]
     (cleanFurigana [0x304B, 0x30FB, 0x308F, 0x3044] new_FuriganaOptions) =
       Some [[0x304B], [0x2E], [0x308F, 0x3044]]"
    by (simp add: eval_defs)
  have h5: "furigana [0x53EF, 0x611B] [0x304B, 0x30FB, 0x308F, 0x3044] new_FuriganaOptions =
     Some [([0x53EF], [0x304B]), ([0x611B], [0x308F, 0x3044])]"
    by (simp add: eval_defs)
  have h6: "([0x611B], [0x308F, 0x3044]) \<in>
      set [([0x53EF], [0x304B]), ([0x611B], [0x308F, 0x3044 :: cu])]"
    by simp
  have h7: "kanjiRegex 0x611B" by (simp add: kanjiRegex_def)
  from kanji_segment_reading [OF h1 h2 h3 h4 h5 h6 h7] h1 h2 h3 h4 h5 h6 h7
  show ?thesis by blast
qed

end
